theory Spec2Isabelle
  imports Complex_Main "HOL-Library.Sublist" "HOL-Library.Multiset"
begin

section \<open>Strings\<close>

text \<open>
  JavaScript strings are modelled as \<^typ>\<open>string\<close>, a list of code units; the 256 values
  of \<^typ>\<open>char\<close> are read as the code units U+0000 to U+00FF. The source's user-facing
  literals are Chinese text; they appear here as ASCII constants of their own, since no
  property below depends on their wording.
\<close>

text \<open>\<^verbatim>\<open>s.includes(t)\<close>: \<open>t\<close> occurs in \<open>s\<close> as a contiguous run.\<close>

fun str_includes :: "string \<Rightarrow> string \<Rightarrow> bool" where
  "str_includes [] t = (t = [])"
| "str_includes (c # cs) t = (prefix t (c # cs) \<or> str_includes cs t)"

text \<open>\<^verbatim>\<open>s.startsWith(t)\<close>.\<close>

definition startsWith :: "string \<Rightarrow> string \<Rightarrow> bool" where
  "startsWith s t = prefix t s"

text \<open>
  The white space and line terminators that \<^verbatim>\<open>trim()\<close> strips, within the 8-bit range of
  \<^typ>\<open>char\<close>: TAB, LF, VT, FF, CR, SPACE and NBSP.
\<close>

definition isWhiteSpace :: "char \<Rightarrow> bool" where
  "isWhiteSpace c = (of_char c \<in> {9, 10, 11, 12, 13, 32, 160 :: nat})"

definition trim :: "string \<Rightarrow> string" where
  "trim s = rev (dropWhile isWhiteSpace (rev (dropWhile isWhiteSpace s)))"

text \<open>
  \<^verbatim>\<open>s.toLowerCase()\<close>. Of the code units U+0000 to U+00FF it moves the capitals A to Z
  (65 to 90) and the capitals U+00C0 to U+00DE other than the multiplication sign U+00D7
  (192 to 222 without 215) to the code unit 32 places up, and keeps every other one.
\<close>

definition toLowerChar :: "char \<Rightarrow> char" where
  "toLowerChar c =
     (let n = (of_char c :: nat) in
      if (65 \<le> n \<and> n \<le> 90) \<or> (192 \<le> n \<and> n \<le> 222 \<and> n \<noteq> 215)
      then char_of (n + 32) else c)"

definition toLowerCase :: "string \<Rightarrow> string" where
  "toLowerCase s = map toLowerChar s"

section \<open>types.ts\<close>

datatype Category =
    Cat_All                 \<comment> \<open>the literal for "all"\<close>
  | Cat_Mortgage_Survival
  | Cat_Workplace_Involution
  | Cat_Marriage_Emotion
  | Cat_Human_Reality
  | Cat_Loneliness_Breakdown
  | Cat_Money_Class
  | Cat_Slacking_LyingFlat

record Quote =
  id' :: int
  text' :: string
  category :: Category
  author :: "string option"

record AnalysisResult =
  transcription :: string
  generatedQuotes :: "string list"

datatype AnalysisStatus = IDLE | UPLOADING | ANALYZING | COMPLETED | ERROR

section \<open>services/geminiService.ts\<close>

text \<open>
  A thrown value: only its optional \<^verbatim>\<open>message\<close> is ever read
  (\<^verbatim>\<open>error.message?.includes(...)\<close>, \<^verbatim>\<open>err.message || ...\<close>).
\<close>

datatype error = Error (message: "string option")

text \<open>\<^verbatim>\<open>error.message?.includes(t)\<close> used as a condition: an absent message is falsy.\<close>

definition message_includes :: "error \<Rightarrow> string \<Rightarrow> bool" where
  "message_includes e t = (case message e of None \<Rightarrow> False | Some m \<Rightarrow> str_includes m t)"

text \<open>The retry condition on the caught error in \<^verbatim>\<open>generateWithRetry\<close>.\<close>

definition isTransient :: "error \<Rightarrow> bool" where
  "isTransient e = (message_includes e ''Rpc failed'' \<or> message_includes e ''503'')"

text \<open>
  What one run of the transport does, in order: a call of
  \<^verbatim>\<open>ai.models.generateContent(params)\<close> or a \<^verbatim>\<open>setTimeout\<close> wait in milliseconds.
\<close>

datatype 'p event = Call 'p | Wait nat

text \<open>
  The remote model is the environment: \<open>ai params n\<close> is the outcome of the \<open>n\<close>-th
  invocation of \<^verbatim>\<open>generateContent\<close> (a rejection or a response). The function returns the
  outcome, the events in order, and the number of invocations made so far.
\<close>

fun generateWithRetry ::
  "('p \<Rightarrow> nat \<Rightarrow> error + 'r) \<Rightarrow> 'p \<Rightarrow> nat \<Rightarrow> nat \<Rightarrow> (error + 'r) \<times> 'p event list \<times> nat" where
  "generateWithRetry ai params retries n =
     (case ai params n of
        Inr response \<Rightarrow> (Inr response, [Call params], Suc n)
      | Inl err \<Rightarrow>
          if retries > 0 \<and> isTransient err then
            (case generateWithRetry ai params (retries - 1) (Suc n) of
               (r, evs, n') \<Rightarrow> (r, Call params # Wait 2000 # evs, n'))
          else (Inl err, [Call params], Suc n))"

text \<open>An attempt failed with a transient error.\<close>

definition transientFailure :: "error + 'r \<Rightarrow> bool" where
  "transientFailure out = (case out of Inl err \<Rightarrow> isTransient err | Inr _ \<Rightarrow> False)"


text \<open>
  \<^verbatim>\<open>AnalysisOptions\<close>. The optional fields are options; the field names carry a prefix to
  keep them apart from the component state's fields of the same name.
\<close>

datatype DurationOption = D10s | D15s | D25s | D60s | D3m | D5m

record AnalysisOptions =
  opt_customInstruction :: "string option"
  opt_targetDuration :: DurationOption
  opt_avoidQuotes :: "string list option"

text \<open>A \<^verbatim>\<open>File\<close>: the properties the code reads.\<close>

record File =
  name :: string
  type' :: string
  size' :: nat

text \<open>
  The prompt is a concatenation of fixed Chinese paragraphs around the inputs; it is kept
  here as the list of its paragraphs, in the order they are appended.
\<close>

datatype prompt_piece =
    AnalyzeVideoTask                  \<comment> \<open>transcribe the video, then write 3 quotes from it\<close>
  | TopicOnlyTask                     \<comment> \<open>write 3 quotes on the user's topic\<close>
  | CustomTopic string                \<comment> \<open>the user's own topic\<close>
  | FallbackTopic                     \<comment> \<open>free choice of topic: no video and no instruction\<close>
  | DurationRequirement DurationOption \<comment> \<open>the entry of \<^verbatim>\<open>durationMap\<close>\<close>
  | AvoidRepeating "string list"      \<comment> \<open>the quotes not to repeat, as JSON\<close>

datatype part = InlineData string string | Text "prompt_piece list"

text \<open>
  The request handed to \<^verbatim>\<open>generateContent\<close>. Model name, system instruction and response
  schema are the same in every request and are left out.
\<close>

record params =
  parts :: "part list"

text \<open>The response: its \<^verbatim>\<open>text\<close> property, which may be absent.\<close>

record response =
  response_text :: "string option"

text \<open>
  What the service reads from outside: the configured key, the file reader, the remote model
  and \<^verbatim>\<open>JSON.parse\<close> (which throws on malformed text; a parsed value is taken at its
  declared type \<^verbatim>\<open>AnalysisResult\<close>).
\<close>

record env =
  API_KEY :: "string option"
  blobToBase64 :: "File \<Rightarrow> error + string"
  generateContent :: "params \<Rightarrow> nat \<Rightarrow> error + response"
  JSON_parse :: "string \<Rightarrow> error + AnalysisResult"

definition buildPrompt :: "File option \<Rightarrow> AnalysisOptions \<Rightarrow> prompt_piece list" where
  "buildPrompt videoFile options =
     (case videoFile of Some _ \<Rightarrow> [AnalyzeVideoTask] | None \<Rightarrow> [TopicOnlyTask])
     @ (case opt_customInstruction options of
          Some ci \<Rightarrow>
            if ci \<noteq> [] \<and> trim ci \<noteq> [] then [CustomTopic ci]
            else if videoFile = None then [FallbackTopic] else []
        | None \<Rightarrow> if videoFile = None then [FallbackTopic] else [])
     @ [DurationRequirement (opt_targetDuration options)]
     @ (case opt_avoidQuotes options of
          Some qs \<Rightarrow> if length qs > 0 then [AvoidRepeating qs] else []
        | None \<Rightarrow> [])"

text \<open>
  \<^verbatim>\<open>analyzeVideoAndGenerateQuotes\<close>, from invocation number \<open>n\<close> of the remote model on.
  Every \<^verbatim>\<open>throw\<close> and every rejected \<^verbatim>\<open>await\<close> is an \<open>Inl\<close>; the outer
  \<^verbatim>\<open>catch\<close> only logs and rethrows.
\<close>

definition analyzeVideoAndGenerateQuotes ::
  "env \<Rightarrow> nat \<Rightarrow> File option \<Rightarrow> AnalysisOptions \<Rightarrow>
     (error + AnalysisResult) \<times> params event list \<times> nat" where
  "analyzeVideoAndGenerateQuotes e n videoFile options =
     (if (case API_KEY e of None \<Rightarrow> True | Some k \<Rightarrow> k = []) then
        (Inl (Error (Some ''API Key not found in environment'')), [], n)
      else
        case (case videoFile of
                None \<Rightarrow> Inr []
              | Some f \<Rightarrow>
                  (case blobToBase64 e f of
                     Inl err \<Rightarrow> Inl err
                   | Inr base64Video \<Rightarrow> Inr [InlineData (type' f) base64Video])) of
          Inl err \<Rightarrow> (Inl err, [], n)
        | Inr media \<Rightarrow>
            (case generateWithRetry (generateContent e)
                    \<lparr>parts = media @ [Text (buildPrompt videoFile options)]\<rparr> 2 n of
               (Inl err, evs, n') \<Rightarrow> (Inl err, evs, n')
             | (Inr resp, evs, n') \<Rightarrow>
                 (case response_text resp of
                    None \<Rightarrow> (Inl (Error (Some ''No response from Gemini'')), evs, n')
                  | Some txt \<Rightarrow>
                      if txt = [] then
                        (Inl (Error (Some ''No response from Gemini'')), evs, n')
                      else (JSON_parse e txt, evs, n'))))"

section \<open>components/VideoAnalyzer.tsx\<close>

text \<open>The user-facing messages, in the order they appear in the source.\<close>

definition msg_invalid_video :: string where
  "msg_invalid_video = ''Please upload a valid video file (MP4, MOV, ...)''"

definition msg_over_limit_loaded :: string where
  "msg_over_limit_loaded = ''Video exceeds the limit (5 minutes at most). Upload a shorter one.''"

definition msg_need_input :: string where
  "msg_need_input = ''Upload a video or enter a topic.''"

definition msg_over_limit_submit :: string where
  "msg_over_limit_submit = ''Video is longer than 5 minutes. Choose another video.''"

definition msg_unknown :: string where
  "msg_unknown = ''Unknown error during analysis, please retry.''"

definition msg_transport :: string where
  "msg_transport = ''Network transfer failed: compress the video or use a custom topic only.''"

text \<open>
  The component's state: one field for each \<^verbatim>\<open>useState\<close>, in the source's order, then the
  two locals of the progress effect's closure (\<open>currentProgress\<close>, and whether its
  \<open>interval\<close> is live). Numbers are reals: the code only adds a positive increment and
  compares with constants, which IEEE doubles do in the same order.
\<close>

record VideoAnalyzer =
  status :: AnalysisStatus
  file' :: "File option"
  videoUrl :: "string option"
  videoDuration :: real
  result :: "AnalysisResult option"
  error :: "string option"
  customInstruction :: string
  targetDuration :: DurationOption
  generatedHistory :: "string list"
  progress :: real
  transcriptionCopied :: bool
  currentProgress :: real
  interval :: bool

definition VideoAnalyzer_init :: VideoAnalyzer where
  "VideoAnalyzer_init =
     \<lparr>status = IDLE, file' = None, videoUrl = None, videoDuration = 0, result = None,
      error = None, customInstruction = [], targetDuration = D15s, generatedHistory = [],
      progress = 0, transcriptionCopied = False, currentProgress = 0, interval = False\<rparr>"

text \<open>
  The progress effect, run after a render in which \<open>status\<close> changed: the previous run's
  cleanup clears its interval, then the body runs on the new status.
\<close>

definition progressEffect :: "VideoAnalyzer \<Rightarrow> VideoAnalyzer" where
  "progressEffect s =
     (if status s = ANALYZING then
        s\<lparr>progress := 0, currentProgress := 0, interval := True\<rparr>
      else if status s = COMPLETED then s\<lparr>progress := 100, interval := False\<rparr>
      else if status s = ERROR \<or> status s = IDLE then s\<lparr>progress := 0, interval := False\<rparr>
      else s\<lparr>interval := False\<rparr>)"

text \<open>
  One firing of the 150 ms interval; \<open>r\<close> is the value of \<^verbatim>\<open>Math.random()\<close>. A cleared
  interval does not fire.
\<close>

definition intervalTick :: "real \<Rightarrow> VideoAnalyzer \<Rightarrow> VideoAnalyzer" where
  "intervalTick r s =
     (if interval s \<and> currentProgress s < 90 then
        let remaining = 95 - currentProgress s;
            increment = max 0.2 (remaining * 0.05 * r);
            cp = currentProgress s + increment
        in s\<lparr>currentProgress := cp, progress := min 95 cp\<rparr>
      else s)"

text \<open>The state after a run of ticks, oldest first.\<close>

definition intervalTicks :: "real list \<Rightarrow> VideoAnalyzer \<Rightarrow> VideoAnalyzer" where
  "intervalTicks rs s = foldl (\<lambda>s r. intervalTick r s) s rs"

text \<open>
  The render after an event: the effect depends on \<open>status\<close> alone, so it runs when the
  status differs from that of the render \<open>before\<close> the event, and not otherwise.
\<close>

definition rendered :: "VideoAnalyzer \<Rightarrow> VideoAnalyzer \<Rightarrow> VideoAnalyzer" where
  "rendered before s = (if status s = status before then s else progressEffect s)"

text \<open>
  \<^verbatim>\<open>handleFileChange\<close>: \<open>selectedFile\<close> is \<^verbatim>\<open>e.target.files?.[0]\<close>, \<open>newUrl\<close> what
  \<^verbatim>\<open>URL.createObjectURL\<close> returns for it.
\<close>

definition handleFileChange :: "File option \<Rightarrow> string \<Rightarrow> VideoAnalyzer \<Rightarrow> VideoAnalyzer" where
  "handleFileChange selectedFile newUrl s =
     (case selectedFile of
        None \<Rightarrow> s
      | Some f \<Rightarrow>
          if \<not> startsWith (type' f) ''video/'' then s\<lparr>error := Some msg_invalid_video\<rparr>
          else
            s\<lparr>file' := Some f, videoUrl := Some newUrl, error := None, result := None,
              generatedHistory := [], status := IDLE\<rparr>)"

definition onVideoMetadataLoaded :: "real \<Rightarrow> VideoAnalyzer \<Rightarrow> VideoAnalyzer" where
  "onVideoMetadataLoaded duration s =
     (if duration > 300 then s\<lparr>videoDuration := duration, error := Some msg_over_limit_loaded\<rparr>
      else s\<lparr>videoDuration := duration\<rparr>)"

text \<open>
  \<^verbatim>\<open>handleAnalyze\<close> up to its \<^verbatim>\<open>await\<close>: the two guards, then the switch to
  \<open>ANALYZING\<close>. The second component is the call of the service it is about to make, or
  \<open>None\<close> when a guard returned early.
\<close>

definition handleAnalyze_begin ::
  "VideoAnalyzer \<Rightarrow> VideoAnalyzer \<times> (File option \<times> AnalysisOptions) option" where
  "handleAnalyze_begin s =
     (if file' s = None \<and> trim (customInstruction s) = [] then
        (s\<lparr>error := Some msg_need_input\<rparr>, None)
      else if file' s \<noteq> None \<and> videoDuration s > 300 then
        (s\<lparr>error := Some msg_over_limit_submit\<rparr>, None)
      else
        (s\<lparr>status := ANALYZING, error := None\<rparr>,
         Some (file' s,
               \<lparr>opt_customInstruction = Some (customInstruction s),
                opt_targetDuration = targetDuration s,
                opt_avoidQuotes = Some (generatedHistory s)\<rparr>)))"

text \<open>The message shown for a caught error.\<close>

definition errorMessage :: "error \<Rightarrow> string" where
  "errorMessage err =
     (let m = (case message err of
                 None \<Rightarrow> msg_unknown
               | Some m \<Rightarrow> if m = [] then msg_unknown else m)
      in if str_includes m ''Rpc failed'' \<or> str_includes m ''xhr error''
            \<or> str_includes m ''code: 6''
         then msg_transport else m)"

text \<open>
  \<^verbatim>\<open>handleAnalyze\<close> after its \<^verbatim>\<open>await\<close>, on the state the component has by then: the
  \<^verbatim>\<open>try\<close> continuation on a result, the \<^verbatim>\<open>catch\<close> block on an error. The history is
  updated through an updater function, so it extends the history of that moment.
\<close>

definition handleAnalyze_settle ::
  "error + AnalysisResult \<Rightarrow> VideoAnalyzer \<Rightarrow> VideoAnalyzer" where
  "handleAnalyze_settle outcome s =
     (case outcome of
        Inr analysisResult \<Rightarrow>
          s\<lparr>result := Some analysisResult,
            generatedHistory := generatedHistory s @ generatedQuotes analysisResult,
            status := COMPLETED\<rparr>
      | Inl err \<Rightarrow> s\<lparr>error := Some (errorMessage err), status := ERROR\<rparr>)"

text \<open>
  A whole run of \<^verbatim>\<open>handleAnalyze\<close> with no other event in between: the final state, the
  transport's events and the number of remote invocations made so far.
\<close>

definition handleAnalyze ::
  "env \<Rightarrow> nat \<Rightarrow> VideoAnalyzer \<Rightarrow> VideoAnalyzer \<times> params event list \<times> nat" where
  "handleAnalyze e n s =
     (case handleAnalyze_begin s of
        (s', None) \<Rightarrow> (s', [], n)
      | (s', Some (videoFile, options)) \<Rightarrow>
          (case analyzeVideoAndGenerateQuotes e n videoFile options of
             (outcome, evs, n') \<Rightarrow> (handleAnalyze_settle outcome s', evs, n')))"



definition reupload :: "VideoAnalyzer \<Rightarrow> VideoAnalyzer" where
  "reupload s = s\<lparr>file' := None, videoUrl := None, generatedHistory := []\<rparr>"

definition handleTopicClick :: "string \<Rightarrow> VideoAnalyzer \<Rightarrow> VideoAnalyzer" where
  "handleTopicClick topic s = s\<lparr>customInstruction := topic, generatedHistory := []\<rparr>"

text \<open>The topic input's \<^verbatim>\<open>onChange\<close>: \<^verbatim>\<open>setCustomInstruction(e.target.value)\<close>.\<close>

definition customInstruction_onChange :: "string \<Rightarrow> VideoAnalyzer \<Rightarrow> VideoAnalyzer" where
  "customInstruction_onChange v s = s\<lparr>customInstruction := v\<rparr>"


section \<open>components/QuoteLibrary.tsx\<close>

text \<open>
  \<open>BUILT_IN_QUOTES\<close> (utils/constants) is a parameter of every function that reads it.
  \<open>shuffle\<close> stands for \<^verbatim>\<open>xs => [...xs].sort(() => 0.5 - Math.random())\<close> in one call:
  the engine's sort under a random comparator, of which the language only promises that it
  rearranges the array.
\<close>

record QuoteLibrary =
  searchTerm :: string
  selectedCategory :: Category
  visibleQuotes :: "Quote list"
  timeRemaining :: nat

definition QuoteLibrary_init :: QuoteLibrary where
  "QuoteLibrary_init =
     \<lparr>searchTerm = [], selectedCategory = Cat_All, visibleQuotes = [], timeRemaining = 120\<rparr>"

text \<open>The pool \<^verbatim>\<open>refreshQuotes\<close> samples from.\<close>

definition pool :: "Quote list \<Rightarrow> Category \<Rightarrow> Quote list" where
  "pool BUILT_IN_QUOTES cat =
     (if cat \<noteq> Cat_All then filter (\<lambda>q. category q = cat) BUILT_IN_QUOTES
      else BUILT_IN_QUOTES)"

definition refreshQuotes ::
  "Quote list \<Rightarrow> (Quote list \<Rightarrow> Quote list) \<Rightarrow> QuoteLibrary \<Rightarrow> QuoteLibrary" where
  "refreshQuotes BUILT_IN_QUOTES shuffle s =
     (let shuffled = shuffle (pool BUILT_IN_QUOTES (selectedCategory s))
      in s\<lparr>visibleQuotes := take 8 shuffled, timeRemaining := 120\<rparr>)"

text \<open>
  \<^verbatim>\<open>handleCategoryChange\<close> with the effect it triggers: \<^verbatim>\<open>refreshQuotes\<close> is rebuilt, and
  the effect that calls it re-run, only when \<open>selectedCategory\<close> changes.
\<close>

definition handleCategoryChange ::
  "Quote list \<Rightarrow> (Quote list \<Rightarrow> Quote list) \<Rightarrow> Category \<Rightarrow> QuoteLibrary \<Rightarrow> QuoteLibrary" where
  "handleCategoryChange BUILT_IN_QUOTES shuffle cat s =
     (if cat = selectedCategory s then s
      else refreshQuotes BUILT_IN_QUOTES shuffle (s\<lparr>selectedCategory := cat\<rparr>))"

text \<open>One firing of the one-second timer.\<close>

definition timerTick ::
  "Quote list \<Rightarrow> (Quote list \<Rightarrow> Quote list) \<Rightarrow> QuoteLibrary \<Rightarrow> QuoteLibrary" where
  "timerTick BUILT_IN_QUOTES shuffle s =
     (if timeRemaining s \<le> 1 then
        (refreshQuotes BUILT_IN_QUOTES shuffle s)\<lparr>timeRemaining := 120\<rparr>
      else s\<lparr>timeRemaining := timeRemaining s - 1\<rparr>)"

text \<open>The search input's \<^verbatim>\<open>onChange\<close>.\<close>

definition setSearchTerm :: "string \<Rightarrow> QuoteLibrary \<Rightarrow> QuoteLibrary" where
  "setSearchTerm v s = s\<lparr>searchTerm := v\<rparr>"

definition displayQuotes :: "Quote list \<Rightarrow> QuoteLibrary \<Rightarrow> Quote list" where
  "displayQuotes BUILT_IN_QUOTES s =
     (if searchTerm s \<noteq> [] then
        filter (\<lambda>q. str_includes (toLowerCase (text' q)) (toLowerCase (searchTerm s)))
          BUILT_IN_QUOTES
      else visibleQuotes s)"

text \<open>
  The specification's reading of a case-insensitive substring match, stated without the
  code's lower-casing. The letters that have two cases, each capital paired with its small
  letter: the Latin alphabet, then the accented capitals U+00C0 to U+00DE (without the
  multiplication sign U+00D7) with U+00E0 to U+00FE (without the division sign U+00F7).
\<close>

definition caseVariants :: "(char \<times> char) list" where
  "caseVariants =
     zip ''ABCDEFGHIJKLMNOPQRSTUVWXYZ'' ''abcdefghijklmnopqrstuvwxyz'' @
     zip [CHR 0xC0, CHR 0xC1, CHR 0xC2, CHR 0xC3, CHR 0xC4, CHR 0xC5, CHR 0xC6, CHR 0xC7,
          CHR 0xC8, CHR 0xC9, CHR 0xCA, CHR 0xCB, CHR 0xCC, CHR 0xCD, CHR 0xCE, CHR 0xCF,
          CHR 0xD0, CHR 0xD1, CHR 0xD2, CHR 0xD3, CHR 0xD4, CHR 0xD5, CHR 0xD6,
          CHR 0xD8, CHR 0xD9, CHR 0xDA, CHR 0xDB, CHR 0xDC, CHR 0xDD, CHR 0xDE]
         [CHR 0xE0, CHR 0xE1, CHR 0xE2, CHR 0xE3, CHR 0xE4, CHR 0xE5, CHR 0xE6, CHR 0xE7,
          CHR 0xE8, CHR 0xE9, CHR 0xEA, CHR 0xEB, CHR 0xEC, CHR 0xED, CHR 0xEE, CHR 0xEF,
          CHR 0xF0, CHR 0xF1, CHR 0xF2, CHR 0xF3, CHR 0xF4, CHR 0xF5, CHR 0xF6,
          CHR 0xF8, CHR 0xF9, CHR 0xFA, CHR 0xFB, CHR 0xFC, CHR 0xFD, CHR 0xFE]"

text \<open>Two code units are the same letter: equal, or the two cases of one letter.\<close>

definition sameLetter :: "char \<Rightarrow> char \<Rightarrow> bool" where
  "sameLetter c d = (c = d \<or> (c, d) \<in> set caseVariants \<or> (d, c) \<in> set caseVariants)"

text \<open>Some contiguous run of the text agrees with the term, letter by letter, up to case.\<close>

definition caseInsensitiveMatch :: "string \<Rightarrow> string \<Rightarrow> bool" where
  "caseInsensitiveMatch term txt = (\<exists>u. sublist u txt \<and> list_all2 sameLetter u term)"

section \<open>Sample inputs\<close>

text \<open>A remote model that answers its invocations from a script, then rejects.\<close>

definition scripted :: "(error + response) list \<Rightarrow> params \<Rightarrow> nat \<Rightarrow> error + response" where
  "scripted outs p n = (if n < length outs then outs ! n else Inl (Error None))"

definition sample_params :: params where
  "sample_params = \<lparr>parts = [Text [TopicOnlyTask, FallbackTopic, DurationRequirement D15s]]\<rparr>"

definition sample_response :: response where
  "sample_response = \<lparr>response_text = Some ''ok''\<rparr>"

definition err_auth :: error where
  "err_auth = Error (Some ''API key not valid'')"

definition err_rpc :: error where
  "err_rpc = Error (Some ''Rpc failed due to xhr error'')"

definition err_503 :: error where
  "err_503 = Error (Some ''got status: 503 Service Unavailable'')"

definition sample_video :: File where
  "sample_video = \<lparr>name = ''clip.mp4'', type' = ''video/mp4'', size' = 1048576\<rparr>"

definition sample_video2 :: File where
  "sample_video2 = \<lparr>name = ''short.mov'', type' = ''video/quicktime'', size' = 2048\<rparr>"

definition sample_image :: File where
  "sample_image = \<lparr>name = ''photo.png'', type' = ''image/png'', size' = 4096\<rparr>"

definition sample_result :: AnalysisResult where
  "sample_result = \<lparr>transcription = ''summary'', generatedQuotes = [''q1'', ''q2'', ''q3'']\<rparr>"

text \<open>An environment with a key, a file reader that succeeds and a scripted remote model.\<close>

definition sample_env :: "(error + response) list \<Rightarrow> env" where
  "sample_env outs =
     \<lparr>API_KEY = Some ''key'', blobToBase64 = (\<lambda>f. Inr ''AAAA''),
      generateContent = scripted outs,
      JSON_parse = (\<lambda>t. if t = ''ok'' then Inr sample_result
                         else Inl (Error (Some ''Unexpected token'')))\<rparr>"

text \<open>A topic typed into the empty form.\<close>

definition s_topic :: VideoAnalyzer where
  "s_topic = customInstruction_onChange ''mortgage'' VideoAnalyzer_init"

text \<open>Then a video of 301 seconds uploaded and decoded.\<close>

definition s_over :: VideoAnalyzer where
  "s_over = onVideoMetadataLoaded 301 (handleFileChange (Some sample_video) ''blob:1'' s_topic)"

text \<open>The topic-only form after one successful generation.\<close>

definition s_done :: VideoAnalyzer where
  "s_done = fst (handleAnalyze (sample_env [Inr sample_response]) 0 s_topic)"

text \<open>
  A video of 301 seconds uploaded and decoded, removed with the re-upload button, and a
  second video chosen whose metadata has not loaded yet.
\<close>

definition s_stale :: VideoAnalyzer where
  "s_stale = handleFileChange (Some sample_video2) ''blob:2''
       (reupload (onVideoMetadataLoaded 301
          (handleFileChange (Some sample_video) ''blob:1'' VideoAnalyzer_init)))"

text \<open>The topic-only form just after a submission was accepted and rendered.\<close>

definition s_analyzing :: VideoAnalyzer where
  "s_analyzing = rendered s_topic (fst (handleAnalyze_begin s_topic))"

text \<open>
  A collection of twenty records, three of them in one category; the text of the seventh
  ends in the accented capital U+00C9.
\<close>

definition sample_quote :: "nat \<Rightarrow> Quote" where
  "sample_quote i =
     \<lparr>id' = int i,
      text' = (if i = 3 then ''The mortgage eats the SALARY''
               else if i = 7 then [CHR ''C'', CHR ''A'', CHR ''F'', CHR 0xC9]
               else if i = 12 then ''my salary is gone by the 5th''
               else ''overtime again''),
      category = (if i mod 6 = 0 then Cat_Workplace_Involution else Cat_Mortgage_Survival),
      author = None\<rparr>"

definition sample_quotes :: "Quote list" where
  "sample_quotes = map sample_quote
     [1, 2, 3, 4, 5, 6, 7, 8, 9, 10, 11, 12, 13, 14, 15, 16, 17, 18, 19, 20]"

text \<open>The library after its first load and a click on that category.\<close>

definition lib_workplace :: QuoteLibrary where
  "lib_workplace = handleCategoryChange sample_quotes rev Cat_Workplace_Involution
      (refreshQuotes sample_quotes rev QuoteLibrary_init)"

section \<open>The retrying transport\<close>

lemmas generateWithRetry_unfold = generateWithRetry.simps

declare generateWithRetry.simps [simp del]

lemma generateWithRetry_settled:
  "\<not> transientFailure (ai params n) \<Longrightarrow>
   generateWithRetry ai params retries n = (ai params n, [Call params], Suc n)"
  by (subst generateWithRetry_unfold)
     (auto simp: transientFailure_def split: sum.splits)

lemma generateWithRetry_exhausted:
  "generateWithRetry ai params 0 n = (ai params n, [Call params], Suc n)"
  by (subst generateWithRetry_unfold) (auto split: sum.splits)

lemma generateWithRetry_again:
  "transientFailure (ai params n) \<Longrightarrow>
   generateWithRetry ai params (Suc k) n =
     (case generateWithRetry ai params k (Suc n) of
        (r, evs, n') \<Rightarrow> (r, Call params # Wait 2000 # evs, n'))"
  by (subst generateWithRetry_unfold)
     (auto simp: transientFailure_def split: sum.splits)

lemma transient_samples:
  "isTransient err_rpc" "isTransient err_503" "\<not> isTransient err_auth"
  "\<not> isTransient (Error None)"
  by (simp_all add: isTransient_def message_includes_def err_rpc_def err_503_def err_auth_def)

text \<open>
  C1. With the default \<open>retries = 2\<close>: an attempt that does not fail transiently (a response
  or a fatal error) ends the run at once with that outcome and no further attempt; a
  transient failure of the first or of the second attempt is followed by a wait of 2000 ms
  and one more attempt; the third attempt's outcome is final whatever it is, so a request
  is attempted at most three times.
\<close>

theorem generateWithRetry_policy:
  "(\<not> transientFailure (ai params n) \<longrightarrow>
      generateWithRetry ai params 2 n = (ai params n, [Call params], n + 1)) \<and>
   (transientFailure (ai params n) \<and> \<not> transientFailure (ai params (n + 1)) \<longrightarrow>
      generateWithRetry ai params 2 n =
        (ai params (n + 1), [Call params, Wait 2000, Call params], n + 2)) \<and>
   (transientFailure (ai params n) \<and> transientFailure (ai params (n + 1)) \<longrightarrow>
      generateWithRetry ai params 2 n =
        (ai params (n + 2),
         [Call params, Wait 2000, Call params, Wait 2000, Call params], n + 3))"
proof -
  have two: "(2::nat) = Suc (Suc 0)" by simp
  show ?thesis
    unfolding two
    by (simp add: generateWithRetry_settled generateWithRetry_again
        generateWithRetry_exhausted)
qed

theorem generateWithRetry_policy_witness:
  "\<not> transientFailure (scripted [Inl err_auth, Inr sample_response] sample_params 0) \<and>
   generateWithRetry (scripted [Inl err_auth, Inr sample_response]) sample_params 2 0
     = (Inl err_auth, [Call sample_params], 1) \<and>
   transientFailure (scripted [Inl err_rpc, Inr sample_response] sample_params 0) \<and>
   \<not> transientFailure (scripted [Inl err_rpc, Inr sample_response] sample_params 1) \<and>
   generateWithRetry (scripted [Inl err_rpc, Inr sample_response]) sample_params 2 0
     = (Inr sample_response, [Call sample_params, Wait 2000, Call sample_params], 2) \<and>
   transientFailure
     (scripted [Inl err_rpc, Inl err_503, Inl err_503, Inr sample_response] sample_params 0) \<and>
   transientFailure
     (scripted [Inl err_rpc, Inl err_503, Inl err_503, Inr sample_response] sample_params 1) \<and>
   generateWithRetry (scripted [Inl err_rpc, Inl err_503, Inl err_503, Inr sample_response])
       sample_params 2 0
     = (Inl err_503,
        [Call sample_params, Wait 2000, Call sample_params, Wait 2000, Call sample_params], 3)"
  using generateWithRetry_policy [of "scripted [Inl err_auth, Inr sample_response]" sample_params 0]
    generateWithRetry_policy [of "scripted [Inl err_rpc, Inr sample_response]" sample_params 0]
    generateWithRetry_policy
      [of "scripted [Inl err_rpc, Inl err_503, Inl err_503, Inr sample_response]" sample_params 0]
  by (simp add: scripted_def transientFailure_def transient_samples)

lemma trim_empty_iff: "trim s = [] \<longleftrightarrow> (\<forall>c \<in> set s. isWhiteSpace c)"
proof -
  have "(\<forall>x \<in> set (dropWhile isWhiteSpace s). isWhiteSpace x) \<longleftrightarrow>
        dropWhile isWhiteSpace s = []"
    using hd_dropWhile [of isWhiteSpace s]
    by (cases "dropWhile isWhiteSpace s") (auto dest: set_dropWhileD)
  then show ?thesis by (simp add: trim_def)
qed

lemmas sample_defs = VideoAnalyzer_init_def customInstruction_onChange_def handleFileChange_def
  onVideoMetadataLoaded_def reupload_def startsWith_def sample_video_def sample_video2_def
  sample_image_def trim_def isWhiteSpace_def

lemma s_topic_eval: "s_topic = VideoAnalyzer_init\<lparr>customInstruction := ''mortgage''\<rparr>"
  by (simp add: s_topic_def sample_defs)

lemma s_over_eval:
  "s_over = VideoAnalyzer_init\<lparr>customInstruction := ''mortgage'', file' := Some sample_video,
      videoUrl := Some ''blob:1'', videoDuration := 301, error := Some msg_over_limit_loaded\<rparr>"
  by (simp add: s_over_def s_topic_def sample_defs)

lemma begin_topic:
  "handleAnalyze_begin s_topic =
     (s_topic\<lparr>status := ANALYZING, error := None\<rparr>,
      Some (None, \<lparr>opt_customInstruction = Some ''mortgage'', opt_targetDuration = D15s,
                   opt_avoidQuotes = Some []\<rparr>))"
  by (simp add: s_topic_def sample_defs handleAnalyze_begin_def)

section \<open>Submission guards\<close>

text \<open>
  C2, as stated, fails: with a video of 301 seconds loaded and a topic typed, media and
  topic are both present, yet \<^verbatim>\<open>handleAnalyze\<close> returns at its second guard with a
  validation message and without any remote call.
\<close>

theorem submit_rejected_iff_both_absent_counterexample:
  "snd (handleAnalyze_begin s_over) = None \<and>
   handleAnalyze (sample_env [Inr sample_response]) 0 s_over
     = (s_over\<lparr>error := Some msg_over_limit_submit\<rparr>, [], 0) \<and>
   \<not> (file' s_over = None \<and> trim (customInstruction s_over) = [])"
  by (simp add: s_over_eval handleAnalyze_def handleAnalyze_begin_def sample_defs)

text \<open>
  C2, amended. \<^verbatim>\<open>handleAnalyze\<close> is rejected exactly when media and topic are both absent
  (the topic empty after trimming) or a media asset is present whose stored duration
  exceeds 300 seconds; a rejection sets the matching validation message, changes nothing
  else and makes no remote call. In every other case the submission proceeds: the status
  becomes \<open>ANALYZING\<close>, the error is cleared and the service is called with the current file,
  topic, length option and history.
\<close>

theorem handleAnalyze_rejects_iff:
  "(snd (handleAnalyze_begin s) = None \<longleftrightarrow>
      (file' s = None \<and> trim (customInstruction s) = []) \<or>
      (file' s \<noteq> None \<and> videoDuration s > 300)) \<and>
   (file' s = None \<and> trim (customInstruction s) = [] \<longrightarrow>
      handleAnalyze e n s = (s\<lparr>error := Some msg_need_input\<rparr>, [], n)) \<and>
   (file' s \<noteq> None \<and> videoDuration s > 300 \<longrightarrow>
      handleAnalyze e n s = (s\<lparr>error := Some msg_over_limit_submit\<rparr>, [], n)) \<and>
   (\<not> (file' s = None \<and> trim (customInstruction s) = []) \<and>
    \<not> (file' s \<noteq> None \<and> videoDuration s > 300) \<longrightarrow>
      handleAnalyze_begin s =
        (s\<lparr>status := ANALYZING, error := None\<rparr>,
         Some (file' s,
               \<lparr>opt_customInstruction = Some (customInstruction s),
                opt_targetDuration = targetDuration s,
                opt_avoidQuotes = Some (generatedHistory s)\<rparr>)) \<and>
      handleAnalyze e n s =
        (case analyzeVideoAndGenerateQuotes e n (file' s)
                \<lparr>opt_customInstruction = Some (customInstruction s),
                 opt_targetDuration = targetDuration s,
                 opt_avoidQuotes = Some (generatedHistory s)\<rparr> of
           (outcome, evs, n') \<Rightarrow>
             (handleAnalyze_settle outcome (s\<lparr>status := ANALYZING, error := None\<rparr>),
              evs, n')))"
  by (auto simp: handleAnalyze_def handleAnalyze_begin_def)

theorem handleAnalyze_rejects_iff_witness:
  "file' s_over \<noteq> None \<and> videoDuration s_over > 300 \<and>
   snd (handleAnalyze_begin s_over) = None \<and>
   handleAnalyze (sample_env []) 5 s_over = (s_over\<lparr>error := Some msg_over_limit_submit\<rparr>, [], 5) \<and>
   file' VideoAnalyzer_init = None \<and> trim (customInstruction VideoAnalyzer_init) = [] \<and>
   handleAnalyze (sample_env []) 5 VideoAnalyzer_init
     = (VideoAnalyzer_init\<lparr>error := Some msg_need_input\<rparr>, [], 5) \<and>
   file' s_topic = None \<and> trim (customInstruction s_topic) \<noteq> [] \<and>
   handleAnalyze_begin s_topic =
     (s_topic\<lparr>status := ANALYZING, error := None\<rparr>,
      Some (None, \<lparr>opt_customInstruction = Some ''mortgage'', opt_targetDuration = D15s,
                   opt_avoidQuotes = Some []\<rparr>))"
  using handleAnalyze_rejects_iff [of s_over "sample_env []" 5]
    handleAnalyze_rejects_iff [of VideoAnalyzer_init "sample_env []" 5]
    handleAnalyze_rejects_iff [of s_topic "sample_env []" 5]
  by (simp add: s_over_eval s_topic_eval sample_defs)






lemma begin_accepted:
  "handleAnalyze_begin s = (s1, Some (vf, opts)) \<Longrightarrow>
   s1 = s\<lparr>status := ANALYZING, error := None\<rparr> \<and> vf = file' s \<and>
   opts = \<lparr>opt_customInstruction = Some (customInstruction s),
           opt_targetDuration = targetDuration s,
           opt_avoidQuotes = Some (generatedHistory s)\<rparr>"
  by (auto simp: handleAnalyze_begin_def split: if_splits)

lemma begin_rejected:
  "handleAnalyze_begin s = (s1, None) \<Longrightarrow>
   s1 = s\<lparr>error := Some msg_need_input\<rparr> \<or> s1 = s\<lparr>error := Some msg_over_limit_submit\<rparr>"
  by (auto simp: handleAnalyze_begin_def split: if_splits)

section \<open>Dedup memory\<close>

text \<open>
  C3. When the service returns a result, the history after \<^verbatim>\<open>handleAnalyze\<close> is the
  history before it followed by the result's quotes, in order, and the status is
  \<open>COMPLETED\<close>; when the service fails, or a guard rejects the submission, the history is
  unchanged. The last two conjuncts say the same of the continuation alone, run on whatever
  state the component has when the call settles.
\<close>

theorem history_appended_on_success:
  "(handleAnalyze_begin s = (s1, Some (vf, opts)) \<and>
    analyzeVideoAndGenerateQuotes e n vf opts = (Inr r, evs, n') \<longrightarrow>
      generatedHistory (fst (handleAnalyze e n s)) = generatedHistory s @ generatedQuotes r \<and>
      status (fst (handleAnalyze e n s)) = COMPLETED \<and>
      result (fst (handleAnalyze e n s)) = Some r) \<and>
   (handleAnalyze_begin s = (s1, Some (vf, opts)) \<and>
    analyzeVideoAndGenerateQuotes e n vf opts = (Inl err, evs, n') \<longrightarrow>
      generatedHistory (fst (handleAnalyze e n s)) = generatedHistory s \<and>
      status (fst (handleAnalyze e n s)) = ERROR \<and>
      result (fst (handleAnalyze e n s)) = result s) \<and>
   (handleAnalyze_begin s = (s1, None) \<longrightarrow>
      generatedHistory (fst (handleAnalyze e n s)) = generatedHistory s \<and>
      status (fst (handleAnalyze e n s)) = status s \<and>
      result (fst (handleAnalyze e n s)) = result s) \<and>
   generatedHistory (handleAnalyze_settle (Inr r) s) = generatedHistory s @ generatedQuotes r \<and>
   generatedHistory (handleAnalyze_settle (Inl err) s) = generatedHistory s"
proof -
  have ok: "generatedHistory (fst (handleAnalyze e n s)) = generatedHistory s @ generatedQuotes r \<and>
      status (fst (handleAnalyze e n s)) = COMPLETED \<and>
      result (fst (handleAnalyze e n s)) = Some r"
    if "handleAnalyze_begin s = (s1, Some (vf, opts))"
      "analyzeVideoAndGenerateQuotes e n vf opts = (Inr r, evs, n')"
    using that begin_accepted [OF that(1)]
    by (simp add: handleAnalyze_def handleAnalyze_settle_def)
  have ko: "generatedHistory (fst (handleAnalyze e n s)) = generatedHistory s \<and>
      status (fst (handleAnalyze e n s)) = ERROR \<and>
      result (fst (handleAnalyze e n s)) = result s"
    if "handleAnalyze_begin s = (s1, Some (vf, opts))"
      "analyzeVideoAndGenerateQuotes e n vf opts = (Inl err, evs, n')"
    using that begin_accepted [OF that(1)]
    by (simp add: handleAnalyze_def handleAnalyze_settle_def)
  have rej: "generatedHistory (fst (handleAnalyze e n s)) = generatedHistory s \<and>
      status (fst (handleAnalyze e n s)) = status s \<and>
      result (fst (handleAnalyze e n s)) = result s"
    if "handleAnalyze_begin s = (s1, None)"
    using that begin_rejected [OF that] by (auto simp: handleAnalyze_def)
  show ?thesis using ok ko rej by (simp add: handleAnalyze_settle_def)
qed

lemma analyze_sample_ok:
  "analyzeVideoAndGenerateQuotes (sample_env [Inr sample_response]) 0 None opts =
     (Inr sample_result, [Call \<lparr>parts = [Text (buildPrompt None opts)]\<rparr>], 1)"
  by (simp add: analyzeVideoAndGenerateQuotes_def sample_env_def generateWithRetry_settled
      transientFailure_def scripted_def sample_response_def)

lemma analyze_sample_fail:
  "analyzeVideoAndGenerateQuotes (sample_env [Inl err_auth]) 0 None opts =
     (Inl err_auth, [Call \<lparr>parts = [Text (buildPrompt None opts)]\<rparr>], 1)"
  by (simp add: analyzeVideoAndGenerateQuotes_def sample_env_def generateWithRetry_settled
      transientFailure_def scripted_def transient_samples)

lemma s_done_eval:
  "s_done = VideoAnalyzer_init\<lparr>customInstruction := ''mortgage'', status := COMPLETED,
      result := Some sample_result, generatedHistory := [''q1'', ''q2'', ''q3'']\<rparr>"
  by (simp add: s_done_def handleAnalyze_def begin_topic analyze_sample_ok
      handleAnalyze_settle_def)
     (simp add: s_topic_eval VideoAnalyzer_init_def sample_result_def)

lemma begin_done:
  "handleAnalyze_begin s_done = (s_done\<lparr>status := ANALYZING, error := None\<rparr>,
     Some (None, \<lparr>opt_customInstruction = Some ''mortgage'', opt_targetDuration = D15s,
                  opt_avoidQuotes = Some [''q1'', ''q2'', ''q3'']\<rparr>))"
  by (simp add: s_done_eval sample_defs handleAnalyze_begin_def)

theorem history_appended_on_success_witness:
  "generatedHistory s_done = [''q1'', ''q2'', ''q3''] \<and>
   snd (handleAnalyze_begin s_done) =
     Some (None, \<lparr>opt_customInstruction = Some ''mortgage'', opt_targetDuration = D15s,
                  opt_avoidQuotes = Some [''q1'', ''q2'', ''q3'']\<rparr>) \<and>
   fst (analyzeVideoAndGenerateQuotes (sample_env [Inr sample_response]) 0 None
     \<lparr>opt_customInstruction = Some ''mortgage'', opt_targetDuration = D15s,
      opt_avoidQuotes = Some [''q1'', ''q2'', ''q3'']\<rparr>) = Inr sample_result \<and>
   generatedHistory (fst (handleAnalyze (sample_env [Inr sample_response]) 0 s_done))
     = [''q1'', ''q2'', ''q3'', ''q1'', ''q2'', ''q3''] \<and>
   fst (analyzeVideoAndGenerateQuotes (sample_env [Inl err_auth]) 0 None
     \<lparr>opt_customInstruction = Some ''mortgage'', opt_targetDuration = D15s,
      opt_avoidQuotes = Some [''q1'', ''q2'', ''q3'']\<rparr>) = Inl err_auth \<and>
   generatedHistory (fst (handleAnalyze (sample_env [Inl err_auth]) 0 s_done))
     = [''q1'', ''q2'', ''q3''] \<and>
   status (fst (handleAnalyze (sample_env [Inl err_auth]) 0 s_done)) = ERROR \<and>
   snd (handleAnalyze_begin s_over) = None \<and>
   generatedHistory (fst (handleAnalyze (sample_env [Inr sample_response]) 0 s_over)) = [] \<and>
   status (fst (handleAnalyze (sample_env [Inr sample_response]) 0 s_over)) = IDLE"
  using history_appended_on_success
      [where s = s_done and ?s1.0 = "s_done\<lparr>status := ANALYZING, error := None\<rparr>"
        and vf = None
        and opts = "\<lparr>opt_customInstruction = Some ''mortgage'', opt_targetDuration = D15s,
          opt_avoidQuotes = Some [''q1'', ''q2'', ''q3'']\<rparr>"
        and e = "sample_env [Inr sample_response]" and n = 0 and r = sample_result
        and evs = "[Call \<lparr>parts = [Text (buildPrompt None
            \<lparr>opt_customInstruction = Some ''mortgage'', opt_targetDuration = D15s,
             opt_avoidQuotes = Some [''q1'', ''q2'', ''q3'']\<rparr>)]\<rparr>]" and n' = 1]
    history_appended_on_success
      [where s = s_done and ?s1.0 = "s_done\<lparr>status := ANALYZING, error := None\<rparr>"
        and vf = None
        and opts = "\<lparr>opt_customInstruction = Some ''mortgage'', opt_targetDuration = D15s,
          opt_avoidQuotes = Some [''q1'', ''q2'', ''q3'']\<rparr>"
        and e = "sample_env [Inl err_auth]" and n = 0 and err = err_auth
        and evs = "[Call \<lparr>parts = [Text (buildPrompt None
            \<lparr>opt_customInstruction = Some ''mortgage'', opt_targetDuration = D15s,
             opt_avoidQuotes = Some [''q1'', ''q2'', ''q3'']\<rparr>)]\<rparr>]" and n' = 1]
    history_appended_on_success
      [where s = s_over and ?s1.0 = "s_over\<lparr>error := Some msg_over_limit_submit\<rparr>"
        and e = "sample_env [Inr sample_response]" and n = 0]
  by (simp add: begin_done analyze_sample_ok analyze_sample_fail s_done_eval s_over_eval
      handleAnalyze_begin_def sample_defs sample_result_def)




text \<open>
  C5, as stated, fails: after one successful generation on a typed topic, editing the topic
  text changes the topic and keeps the three quotes in the history, and the next request
  is built with them as its avoid list.
\<close>

theorem topic_edit_resets_history_counterexample:
  "customInstruction (customInstruction_onChange ''car loan'' s_done) \<noteq> customInstruction s_done \<and>
   generatedHistory (customInstruction_onChange ''car loan'' s_done) = [''q1'', ''q2'', ''q3''] \<and>
   snd (handleAnalyze_begin (customInstruction_onChange ''car loan'' s_done)) =
     Some (None, \<lparr>opt_customInstruction = Some ''car loan'', opt_targetDuration = D15s,
                  opt_avoidQuotes = Some [''q1'', ''q2'', ''q3'']\<rparr>)"
  by (simp add: s_done_eval sample_defs handleAnalyze_begin_def)

text \<open>
  C5, amended. Choosing a suggested-topic chip sets the topic and empties the history; an
  edit of the topic text sets the topic and nothing else, so the history is kept.
\<close>

theorem topic_chip_resets_history_edit_keeps_it:
  "customInstruction (handleTopicClick topic s) = topic \<and>
   generatedHistory (handleTopicClick topic s) = [] \<and>
   customInstruction_onChange v s = s\<lparr>customInstruction := v\<rparr> \<and>
   generatedHistory (customInstruction_onChange v s) = generatedHistory s"
  by (simp add: handleTopicClick_def customInstruction_onChange_def)

section \<open>Duration limit\<close>

lemma over_limit_fault_iff:
  "error (onVideoMetadataLoaded duration s) =
     (if duration > 300 then Some msg_over_limit_loaded else error s) \<and>
   videoDuration (onVideoMetadataLoaded duration s) = duration"
  by (simp add: onVideoMetadataLoaded_def)

lemma over_limit_blocks_iff:
  "file' s \<noteq> None \<Longrightarrow>
   snd (handleAnalyze_begin (onVideoMetadataLoaded duration s)) = None \<longleftrightarrow> duration > 300"
  by (auto simp: handleAnalyze_begin_def onVideoMetadataLoaded_def)

lemma s_stale_eval:
  "s_stale = VideoAnalyzer_init\<lparr>file' := Some sample_video2, videoUrl := Some ''blob:2'',
      videoDuration := 301\<rparr>"
  by (simp add: s_stale_def sample_defs)

text \<open>
  C8. The first two parts hold (\<open>over_limit_fault_iff\<close>, \<open>over_limit_blocks_iff\<close>). The third
  does not: the stored duration is 0 only until the first asset is decoded. Nothing resets
  it when an asset is removed or replaced, so a newly chosen video whose duration is still
  unknown is judged by the previous video's duration: no over-limit fault is set, yet the
  submission is rejected as over the limit and no remote call is made.
\<close>

theorem stale_duration_blocks_new_asset:
  "file' s_stale = Some sample_video2 \<and> videoDuration s_stale = 301 \<and> error s_stale = None \<and>
   handleAnalyze (sample_env [Inr sample_response]) 0 s_stale =
     (s_stale\<lparr>error := Some msg_over_limit_submit\<rparr>, [], 0)"
  by (simp add: s_stale_eval handleAnalyze_def handleAnalyze_begin_def sample_defs)

section \<open>Upload of a file that is not a video\<close>

text \<open>
  C10. For a selected file whose type does not start with \<open>video/\<close>, \<^verbatim>\<open>handleFileChange\<close>
  sets the error message and nothing else: file, preview URL, result, history and status
  are unchanged, and since the status is unchanged the render that follows runs no effect.
\<close>

theorem handleFileChange_rejects_non_video:
  "\<not> startsWith (type' f) ''video/'' \<Longrightarrow>
   handleFileChange (Some f) newUrl s = s\<lparr>error := Some msg_invalid_video\<rparr> \<and>
   file' (handleFileChange (Some f) newUrl s) = file' s \<and>
   videoUrl (handleFileChange (Some f) newUrl s) = videoUrl s \<and>
   result (handleFileChange (Some f) newUrl s) = result s \<and>
   generatedHistory (handleFileChange (Some f) newUrl s) = generatedHistory s \<and>
   status (handleFileChange (Some f) newUrl s) = status s \<and>
   rendered s (handleFileChange (Some f) newUrl s) = handleFileChange (Some f) newUrl s"
  by (simp add: handleFileChange_def rendered_def)

theorem handleFileChange_rejects_non_video_witness:
  "\<not> startsWith (type' sample_image) ''video/'' \<and>
   handleFileChange (Some sample_image) ''blob:3'' s_done = s_done\<lparr>error := Some msg_invalid_video\<rparr> \<and>
   generatedHistory (handleFileChange (Some sample_image) ''blob:3'' s_done) = [''q1'', ''q2'', ''q3''] \<and>
   status (handleFileChange (Some sample_image) ''blob:3'' s_done) = COMPLETED"
proof -
  have h: "\<not> startsWith (type' sample_image) ''video/''"
    by (simp add: startsWith_def sample_image_def)
  show ?thesis
    using h handleFileChange_rejects_non_video [OF h, of "''blob:3''" s_done]
    by (simp add: s_done_eval)
qed

section \<open>Progress estimator\<close>

lemma intervalTick_inv:
  "progress s = min 95 (currentProgress s) \<Longrightarrow>
   progress (intervalTick r s) = min 95 (currentProgress (intervalTick r s))"
  by (simp add: intervalTick_def Let_def)

lemma intervalTick_mono:
  "progress s = min 95 (currentProgress s) \<Longrightarrow> progress s \<le> progress (intervalTick r s)"
  by (auto simp: intervalTick_def Let_def min_def max_def)

lemma intervalTick_status: "status (intervalTick r s) = status s"
  by (simp add: intervalTick_def Let_def)

lemma intervalTicks_inv:
  "progress s = min 95 (currentProgress s) \<Longrightarrow>
   progress (intervalTicks rs s) = min 95 (currentProgress (intervalTicks rs s)) \<and>
   status (intervalTicks rs s) = status s"
  unfolding intervalTicks_def
  by (induction rs arbitrary: s) (simp_all add: intervalTick_inv intervalTick_status)

text \<open>
  C6. When the status becomes \<open>ANALYZING\<close> the progress is 0; from there, after any run of
  interval ticks with any random values, the status is still \<open>ANALYZING\<close>, the progress is at
  most 95 and the next tick does not decrease it. When the status becomes \<open>COMPLETED\<close> the
  progress is 100; when it becomes \<open>ERROR\<close> or \<open>IDLE\<close> the progress is 0.
\<close>

theorem progress_estimator:
  "(status s = ANALYZING \<and> status before \<noteq> ANALYZING \<longrightarrow>
      progress (rendered before s) = 0 \<and>
      (\<forall>rs r.
         status (intervalTicks rs (rendered before s)) = ANALYZING \<and>
         progress (intervalTicks rs (rendered before s))
           \<le> progress (intervalTick r (intervalTicks rs (rendered before s))) \<and>
         progress (intervalTicks rs (rendered before s)) \<le> 95)) \<and>
   (status s = COMPLETED \<and> status before \<noteq> COMPLETED \<longrightarrow> progress (rendered before s) = 100) \<and>
   ((status s = ERROR \<or> status s = IDLE) \<and> status before \<noteq> status s \<longrightarrow>
      progress (rendered before s) = 0)"
proof -
  have run: "progress (rendered before s) = 0 \<and>
      (\<forall>rs r.
         status (intervalTicks rs (rendered before s)) = ANALYZING \<and>
         progress (intervalTicks rs (rendered before s))
           \<le> progress (intervalTick r (intervalTicks rs (rendered before s))) \<and>
         progress (intervalTicks rs (rendered before s)) \<le> 95)"
    if "status s = ANALYZING" "status before \<noteq> ANALYZING"
  proof -
    let ?s0 = "rendered before s"
    from that have s0: "progress ?s0 = 0" "currentProgress ?s0 = 0" "status ?s0 = ANALYZING"
      by (auto simp: rendered_def progressEffect_def)
    then have inv0: "progress ?s0 = min 95 (currentProgress ?s0)" by simp
    have "status (intervalTicks rs ?s0) = ANALYZING \<and>
         progress (intervalTicks rs ?s0) \<le> progress (intervalTick r (intervalTicks rs ?s0)) \<and>
         progress (intervalTicks rs ?s0) \<le> 95" for rs r
      using intervalTicks_inv [OF inv0, of rs] s0(3)
        intervalTick_mono [of "intervalTicks rs ?s0" r]
      by simp
    with s0(1) show ?thesis by blast
  qed
  show ?thesis
    using run by (auto simp: rendered_def progressEffect_def)
qed

lemma s_analyzing_eval:
  "s_analyzing = s_topic\<lparr>status := ANALYZING, error := None, progress := 0,
      currentProgress := 0, interval := True\<rparr>"
  by (simp add: s_analyzing_def begin_topic rendered_def progressEffect_def)
     (simp add: s_topic_eval VideoAnalyzer_init_def)

lemma ticks_sample:
  "progress (intervalTicks [1 / 2] s_analyzing) = 19 / 8"
  "progress (intervalTick (9 / 10) (intervalTicks [1 / 2] s_analyzing)) = 19 / 8 + 741 / 8 * 9 / 200"
  by (simp_all add: s_analyzing_eval intervalTicks_def intervalTick_def Let_def)

theorem progress_estimator_witness:
  "status s_topic = IDLE \<and> status (fst (handleAnalyze_begin s_topic)) = ANALYZING \<and>
   progress s_analyzing = 0 \<and>
   progress (intervalTicks [1 / 2] s_analyzing) = 19 / 8 \<and>
   progress (intervalTicks [1 / 2] s_analyzing)
     \<le> progress (intervalTick (9 / 10) (intervalTicks [1 / 2] s_analyzing)) \<and>
   status (handleAnalyze_settle (Inr sample_result) s_analyzing) = COMPLETED \<and>
   progress (rendered s_analyzing (handleAnalyze_settle (Inr sample_result) s_analyzing)) = 100 \<and>
   status (handleAnalyze_settle (Inl err_auth) s_analyzing) = ERROR \<and>
   progress (rendered s_analyzing (handleAnalyze_settle (Inl err_auth) s_analyzing)) = 0"
proof -
  have idle: "status s_topic = IDLE"
    by (simp add: s_topic_eval VideoAnalyzer_init_def)
  have begun: "status (fst (handleAnalyze_begin s_topic)) = ANALYZING"
    by (simp add: begin_topic)
  have running: "status s_analyzing = ANALYZING"
    by (simp add: s_analyzing_eval)
  have settled:
    "status (handleAnalyze_settle (Inr sample_result) s_analyzing) = COMPLETED"
    "status (handleAnalyze_settle (Inl err_auth) s_analyzing) = ERROR"
    by (simp_all add: handleAnalyze_settle_def)
  show ?thesis
    using progress_estimator [of "fst (handleAnalyze_begin s_topic)" s_topic]
      progress_estimator [of "handleAnalyze_settle (Inr sample_result) s_analyzing" s_analyzing]
      progress_estimator [of "handleAnalyze_settle (Inl err_auth) s_analyzing" s_analyzing]
      idle begun running settled
    by (simp add: s_analyzing_def [symmetric] ticks_sample)
qed

section \<open>Quote library\<close>

lemma str_includes_sublist: "str_includes s t \<longleftrightarrow> sublist t s"
  by (induction s) (simp_all add: sublist_Cons_right)

lemma sublist_map_lower:
  "(\<exists>u. sublist u txt \<and> map f u = map f t) \<longleftrightarrow> sublist (map f t) (map f txt)"
  (is "?l \<longleftrightarrow> ?r")
proof
  assume ?l
  then obtain u where u: "sublist u txt" "map f u = map f t" by blast
  from u(1) obtain ps ss where "txt = ps @ u @ ss"
    unfolding sublist_def by blast
  then have "map f txt = map f ps @ map f t @ map f ss"
    using u(2) by simp
  then show ?r unfolding sublist_def by blast
next
  assume ?r
  then obtain ps ss where eq: "map f txt = ps @ (map f t @ ss)"
    unfolding sublist_def by blast
  have "\<exists>us vs. txt = us @ vs \<and> ps = map f us \<and> map f t @ ss = map f vs"
    using eq by (simp only: map_eq_append_conv)
  then obtain a r where ar: "txt = a @ r" "map f t @ ss = map f r" by blast
  have "\<exists>us vs. r = us @ vs \<and> map f t = map f us \<and> ss = map f vs"
    using ar(2) by (simp only: append_eq_map_conv)
  then obtain b c where bc: "r = b @ c" "map f t = map f b" by blast
  from ar(1) bc(1) have "sublist b txt"
    unfolding sublist_def by blast
  with bc(2) show ?l by auto
qed

text \<open>
  The code's lower-casing against the table of letters: every code unit is sent to its
  small letter if it is a capital of the table and kept otherwise, so two code units have
  the same lower case exactly when they are the same letter.
\<close>

lemma caseVariants_distinct: "distinct (map fst caseVariants @ map snd caseVariants)"
  by code_simp

lemma toLowerChar_table_enum:
  "\<forall>c \<in> set (Enum.enum :: char list).
     toLowerChar c = (case map_of caseVariants c of None \<Rightarrow> c | Some l \<Rightarrow> l)"
  by code_simp


lemma toLowerChar_table:
  "toLowerChar c = (case map_of caseVariants c of None \<Rightarrow> c | Some l \<Rightarrow> l)"
  using toLowerChar_table_enum by (simp add: enum_UNIV)

lemma table_fold_eq_iff:
  assumes d: "distinct (map fst ps @ map snd ps)"
  shows "(case map_of ps c of None \<Rightarrow> c | Some l \<Rightarrow> l) =
         (case map_of ps d of None \<Rightarrow> d | Some l \<Rightarrow> l) \<longleftrightarrow>
         c = d \<or> (c, d) \<in> set ps \<or> (d, c) \<in> set ps"
proof -
  from d have df: "distinct (map fst ps)" and ds: "distinct (map snd ps)"
    and disj: "fst ` set ps \<inter> snd ` set ps = {}"
    by auto
  have look: "map_of ps x = Some y \<longleftrightarrow> (x, y) \<in> set ps" for x y
    using df by (rule map_of_eq_Some_iff)
  have none: "map_of ps x = None \<longleftrightarrow> x \<notin> fst ` set ps" for x
    by (simp add: map_of_eq_None_iff)
  have key: "x \<in> fst ` set ps" and val: "y \<in> snd ` set ps" if "(x, y) \<in> set ps" for x y
    using that by force+
  have same_val: "x = x'" if "(x, y) \<in> set ps" "(x', y) \<in> set ps" for x x' y
  proof -
    from ds have inj: "inj_on snd (set ps)" by (simp add: distinct_map)
    from inj_onD [OF inj, of "(x, y)" "(x', y)"] that show ?thesis by simp
  qed
  have not_key: "(x, y) \<notin> set ps" if "map_of ps x = None" for x y
    using that key [of x y] by (auto simp: none)
  have not_both: "(x, y) \<notin> set ps" if "(y, z) \<in> set ps" for x y z
    using key [OF that] disj by (auto dest: val)
  show ?thesis
  proof (cases "map_of ps c")
    case cn: None
    show ?thesis
    proof (cases "map_of ps d")
      case None
      with cn not_key [of c d] not_key [of d c] show ?thesis by simp
    next
      case (Some l)
      then have dl: "(d, l) \<in> set ps" by (simp add: look)
      have "c \<noteq> d" using cn Some by auto
      moreover have "(d, c) \<in> set ps \<longleftrightarrow> c = l"
        using look [of d c] Some by auto
      ultimately show ?thesis
        using cn Some not_key [of c d] by simp
    qed
  next
    case cs: (Some l)
    then have cl: "(c, l) \<in> set ps" by (simp add: look)
    show ?thesis
    proof (cases "map_of ps d")
      case None
      have "c \<noteq> d" using cs None by auto
      moreover have "(c, d) \<in> set ps \<longleftrightarrow> l = d"
        using look [of c d] cs by auto
      ultimately show ?thesis
        using cs None not_key [of d c] by simp
    next
      case (Some l')
      then have dl: "(d, l') \<in> set ps" by (simp add: look)
      have "l = l' \<longleftrightarrow> c = d"
      proof
        assume "l = l'"
        with cl dl show "c = d" by (auto intro: same_val)
      next
        assume "c = d"
        with cs Some show "l = l'" by simp
      qed
      then show ?thesis
        using cs Some not_both [OF dl, of c] not_both [OF cl, of d] by simp
    qed
  qed
qed

lemma toLowerChar_eq_iff: "toLowerChar c = toLowerChar d \<longleftrightarrow> sameLetter c d"
  unfolding toLowerChar_table sameLetter_def
  by (rule table_fold_eq_iff [OF caseVariants_distinct])

lemma map_toLowerChar_eq_iff:
  "map toLowerChar u = map toLowerChar t \<longleftrightarrow> list_all2 sameLetter u t"
proof (induction u arbitrary: t)
  case Nil
  then show ?case by auto
next
  case (Cons a u)
  then show ?case by (cases t) (simp_all add: toLowerChar_eq_iff)
qed

lemma caseInsensitiveMatch_code:
  "caseInsensitiveMatch term txt \<longleftrightarrow> str_includes (toLowerCase txt) (toLowerCase term)"
  unfolding caseInsensitiveMatch_def toLowerCase_def str_includes_sublist
    map_toLowerChar_eq_iff [symmetric]
  by (rule sublist_map_lower)

lemma pool_subset: "set (pool Q cat) \<subseteq> set Q"
  by (auto simp: pool_def)

lemma pool_distinct: "distinct Q \<Longrightarrow> distinct (pool Q cat)"
  by (simp add: pool_def)

lemma take_of_permutation:
  assumes "mset ys = mset xs" and "distinct xs"
  shows "distinct (take k ys) \<and> set (take k ys) \<subseteq> set xs \<and>
         length (take k ys) = min k (length xs) \<and>
         (length xs \<le> k \<longrightarrow> mset (take k ys) = mset xs)"
proof -
  from assms have d: "distinct ys" using mset_eq_imp_distinct_iff by blast
  from assms(1) have s: "set ys = set xs" by (rule mset_eq_setD)
  from assms(1) have l: "length ys = length xs" by (rule mset_eq_length)
  from d s l assms(1) show ?thesis
    by (auto dest: in_set_takeD)
qed

text \<open>
  C7. Provided the shuffle rearranges its argument and the records of the collection are
  pairwise distinct: the records \<^verbatim>\<open>refreshQuotes\<close> stores are pairwise distinct, all come
  from the pool of the selected category (the whole collection for the category "all", the
  records of that category otherwise), and are \<open>min 8 (length pool)\<close> in number; so eight
  for "all" on a collection of twenty, and all three, in some order, of a pool of three.
\<close>

theorem refreshQuotes_sample:
  assumes "\<forall>xs. mset (shuffle xs) = mset xs" and "distinct BUILT_IN_QUOTES"
  shows "distinct (visibleQuotes (refreshQuotes BUILT_IN_QUOTES shuffle s)) \<and>
    set (visibleQuotes (refreshQuotes BUILT_IN_QUOTES shuffle s))
      \<subseteq> set (pool BUILT_IN_QUOTES (selectedCategory s)) \<and>
    length (visibleQuotes (refreshQuotes BUILT_IN_QUOTES shuffle s))
      = min 8 (length (pool BUILT_IN_QUOTES (selectedCategory s))) \<and>
    (selectedCategory s = Cat_All \<longrightarrow> pool BUILT_IN_QUOTES (selectedCategory s) = BUILT_IN_QUOTES) \<and>
    (selectedCategory s \<noteq> Cat_All \<longrightarrow>
       pool BUILT_IN_QUOTES (selectedCategory s)
         = filter (\<lambda>q. category q = selectedCategory s) BUILT_IN_QUOTES) \<and>
    (selectedCategory s = Cat_All \<and> length BUILT_IN_QUOTES = 20 \<longrightarrow>
       length (visibleQuotes (refreshQuotes BUILT_IN_QUOTES shuffle s)) = 8) \<and>
    (length (pool BUILT_IN_QUOTES (selectedCategory s)) = 3 \<longrightarrow>
       length (visibleQuotes (refreshQuotes BUILT_IN_QUOTES shuffle s)) = 3 \<and>
       set (visibleQuotes (refreshQuotes BUILT_IN_QUOTES shuffle s))
         = set (pool BUILT_IN_QUOTES (selectedCategory s)))"
proof -
  let ?p = "pool BUILT_IN_QUOTES (selectedCategory s)"
  have v: "visibleQuotes (refreshQuotes BUILT_IN_QUOTES shuffle s) = take 8 (shuffle ?p)"
    by (simp add: refreshQuotes_def)
  from assms(1) have m: "mset (shuffle ?p) = mset ?p" by blast
  note t = take_of_permutation [OF m pool_distinct [OF assms(2)], of 8]
  have three: "set (take 8 (shuffle ?p)) = set ?p" if "length ?p = 3"
  proof -
    from that t have "mset (take 8 (shuffle ?p)) = mset ?p" by simp
    then show ?thesis by (rule mset_eq_setD)
  qed
  show ?thesis
    unfolding v using t three by (auto simp: pool_def)
qed

lemma sample_quotes_distinct: "distinct sample_quotes"
proof -
  have "map id' sample_quotes
      = [1, 2, 3, 4, 5, 6, 7, 8, 9, 10, 11, 12, 13, 14, 15, 16, 17, 18, 19, 20]"
    by (simp add: sample_quotes_def sample_quote_def)
  then have "distinct (map id' sample_quotes)" by simp
  then show ?thesis by (simp add: distinct_map)
qed

lemma sample_pool:
  "pool sample_quotes Cat_Workplace_Involution = [sample_quote 6, sample_quote 12, sample_quote 18]"
  "pool sample_quotes Cat_All = sample_quotes"
  by (simp_all add: pool_def sample_quotes_def sample_quote_def)

theorem refreshQuotes_sample_witness:
  "mset (rev sample_quotes) = mset sample_quotes \<and> distinct sample_quotes \<and>
   length sample_quotes = 20 \<and>
   length (visibleQuotes (refreshQuotes sample_quotes rev QuoteLibrary_init)) = 8 \<and>
   distinct (visibleQuotes (refreshQuotes sample_quotes rev QuoteLibrary_init)) \<and>
   visibleQuotes (refreshQuotes sample_quotes rev
       (QuoteLibrary_init\<lparr>selectedCategory := Cat_Workplace_Involution\<rparr>))
     = [sample_quote 18, sample_quote 12, sample_quote 6] \<and>
   set (visibleQuotes (refreshQuotes sample_quotes rev
       (QuoteLibrary_init\<lparr>selectedCategory := Cat_Workplace_Involution\<rparr>)))
     = {sample_quote 6, sample_quote 12, sample_quote 18}"
proof -
  have p: "\<forall>xs :: Quote list. mset (rev xs) = mset xs" by simp
  have len: "length sample_quotes = 20" by (simp add: sample_quotes_def)
  have v3: "visibleQuotes (refreshQuotes sample_quotes rev
       (QuoteLibrary_init\<lparr>selectedCategory := Cat_Workplace_Involution\<rparr>))
     = [sample_quote 18, sample_quote 12, sample_quote 6]"
    by (simp add: refreshQuotes_def sample_pool)
  show ?thesis
    using refreshQuotes_sample [OF p sample_quotes_distinct, of QuoteLibrary_init]
      refreshQuotes_sample [OF p sample_quotes_distinct,
        of "QuoteLibrary_init\<lparr>selectedCategory := Cat_Workplace_Involution\<rparr>"]
      len v3 sample_quotes_distinct
    by (simp add: QuoteLibrary_init_def sample_pool)
qed

text \<open>
  C9. With a search term that is not empty, the displayed list is the whole collection
  filtered by the case-insensitive substring match of the term (some contiguous run of the
  text agrees with the term letter by letter up to case), and neither a change of category
  nor a timer tick alters it. With an empty search term the displayed list is the
  stored \<open>visibleQuotes\<close>. Clearing the search changes the search term alone: the stored
  subset and the countdown stay as they are, and the display shows that subset.
\<close>

theorem displayQuotes_search:
  "(searchTerm s \<noteq> [] \<longrightarrow>
      displayQuotes BUILT_IN_QUOTES s
        = filter (\<lambda>q. caseInsensitiveMatch (searchTerm s) (text' q)) BUILT_IN_QUOTES \<and>
      displayQuotes BUILT_IN_QUOTES (handleCategoryChange BUILT_IN_QUOTES shuffle cat s)
        = displayQuotes BUILT_IN_QUOTES s \<and>
      displayQuotes BUILT_IN_QUOTES (timerTick BUILT_IN_QUOTES shuffle s)
        = displayQuotes BUILT_IN_QUOTES s) \<and>
   (searchTerm s = [] \<longrightarrow> displayQuotes BUILT_IN_QUOTES s = visibleQuotes s) \<and>
   setSearchTerm [] s = s\<lparr>searchTerm := []\<rparr> \<and>
   visibleQuotes (setSearchTerm [] s) = visibleQuotes s \<and>
   timeRemaining (setSearchTerm [] s) = timeRemaining s \<and>
   displayQuotes BUILT_IN_QUOTES (setSearchTerm [] s) = visibleQuotes s"
  by (simp add: displayQuotes_def caseInsensitiveMatch_code setSearchTerm_def
      handleCategoryChange_def timerTick_def refreshQuotes_def Let_def)

lemma lib_workplace_eval:
  "lib_workplace = \<lparr>searchTerm = [], selectedCategory = Cat_Workplace_Involution,
      visibleQuotes = [sample_quote 18, sample_quote 12, sample_quote 6], timeRemaining = 120\<rparr>"
  by (simp add: lib_workplace_def handleCategoryChange_def refreshQuotes_def QuoteLibrary_init_def
      sample_pool)

lemma lower_samples:
  "toLowerCase [CHR ''C'', CHR ''A'', CHR ''F'', CHR 0xC9] = [CHR ''c'', CHR ''a'', CHR ''f'', CHR 0xE9]"
  "toLowerCase [CHR ''c'', CHR ''a'', CHR ''f'', CHR 0xE9] = [CHR ''c'', CHR ''a'', CHR ''f'', CHR 0xE9]"
  "toLowerCase [CHR 0xD7, CHR 0xDF, CHR 0xFF] = [CHR 0xD7, CHR 0xDF, CHR 0xFF]"
  "toLowerCase ''Salary'' = ''salary''"
  "toLowerCase ''The mortgage eats the SALARY'' = ''the mortgage eats the salary''"
  "toLowerCase ''my salary is gone by the 5th'' = ''my salary is gone by the 5th''"
  "toLowerCase ''overtime again'' = ''overtime again''"
  by code_simp+

lemma search_sample:
  "filter (\<lambda>q. str_includes (toLowerCase (text' q)) (toLowerCase ''Salary'')) sample_quotes
     = [sample_quote 3, sample_quote 12]"
  "filter (\<lambda>q. str_includes (toLowerCase (text' q))
            (toLowerCase [CHR ''c'', CHR ''a'', CHR ''f'', CHR 0xE9])) sample_quotes
     = [sample_quote 7]"
  by (simp_all add: sample_quotes_def sample_quote_def lower_samples)

theorem displayQuotes_search_witness:
  "searchTerm lib_workplace = [] \<and>
   displayQuotes sample_quotes lib_workplace = [sample_quote 18, sample_quote 12, sample_quote 6] \<and>
   searchTerm (setSearchTerm ''Salary'' lib_workplace) \<noteq> [] \<and>
   displayQuotes sample_quotes (setSearchTerm ''Salary'' lib_workplace)
     = [sample_quote 3, sample_quote 12] \<and>
   displayQuotes sample_quotes
       (handleCategoryChange sample_quotes rev Cat_All (setSearchTerm ''Salary'' lib_workplace))
     = [sample_quote 3, sample_quote 12] \<and>
   displayQuotes sample_quotes
       (setSearchTerm [CHR ''c'', CHR ''a'', CHR ''f'', CHR 0xE9] lib_workplace)
     = [sample_quote 7] \<and>
   displayQuotes sample_quotes (setSearchTerm [] (setSearchTerm ''Salary'' lib_workplace))
     = [sample_quote 18, sample_quote 12, sample_quote 6]"
  using displayQuotes_search [of lib_workplace sample_quotes rev Cat_All]
    displayQuotes_search [of "setSearchTerm ''Salary'' lib_workplace" sample_quotes rev Cat_All]
    displayQuotes_search
      [of "setSearchTerm [CHR ''c'', CHR ''a'', CHR ''f'', CHR 0xE9] lib_workplace"
        sample_quotes rev Cat_All]
  by (simp add: caseInsensitiveMatch_code search_sample)
     (simp add: lib_workplace_eval setSearchTerm_def search_sample)

end
